theory Spec2Isabelle
  imports Main "HOL-Library.AList"
begin

section \<open>Values, exceptions and the environment\<close>

text \<open>
  The program is dynamically typed: the registry document that comes back from the network
  is whatever \<^verbatim>\<open>response.json()\<close> returns, and its pieces are stored in the registry
  unchecked. Values are therefore modelled as JSON values. An object keeps its members as
  they are written in the document; a lookup takes the last member of a given name, as
  Python's parser does. Numbers are the integers.
\<close>

datatype json =
    JNull
  | JBool bool
  | JInt int
  | JStr string
  | JArr "json list"
  | JObj "(string \<times> json) list"

text \<open>
  Exceptions that leave a function of \<^verbatim>\<open>main.py\<close>. \<open>Exit c\<close> is \<^verbatim>\<open>typer.Exit(code=c)\<close>,
  \<open>Abort\<close> is raised by an interrupted confirmation prompt. \<^verbatim>\<open>OSError\<close> never leaves the
  function in which it is raised, so it has no constructor.
\<close>

datatype exc = TypeError | ValueError | KeyError | RequestException | Abort | Exit nat

text \<open>The status with which the process ends: an exception that nobody catches gives 1.\<close>

fun exit_code :: "exc + unit \<Rightarrow> nat" where
  "exit_code (Inr _) = 0"
| "exit_code (Inl (Exit c)) = c"
| "exit_code (Inl _) = 1"

text \<open>
  What \<^verbatim>\<open>requests.get\<close> hands back when it does not raise: the status, \<^verbatim>\<open>response.text\<close>,
  and the result of \<^verbatim>\<open>response.json()\<close> (\<open>None\<close> when the body does not parse).
\<close>

record response =
  status_code :: nat
  body :: string
  json_body :: "json option"

text \<open>
  A file of the cache directory: the text stored in it, or a file whose read raises
  \<^verbatim>\<open>OSError\<close>.
\<close>

datatype cfile = Readable string | Unreadable

datatype message =
    WarnExists | Cancelled | ErrWriting
  | ErrBoth | ErrNeither
  | Downloading | FailedDownload | SuccessUrl
  | NotFound | Available
  | LoadedFromCache | Fetching | NetworkErrorUsingCached | FailedTemplate | Success
  | FetchingPreview | FailedPreview | Preview json

text \<open>
  Everything the program does to the outside is recorded, in order: the request for the
  registry, a download, a read or write of a cache file, the confirmation prompt, the
  write of the destination file, a message on the console.
\<close>

datatype event =
    RegistryGet
  | Download json
  | CacheRead string
  | CacheWrite string string
  | Confirm
  | DestWrite string
  | Print message

text \<open>
  A Python dictionary, in insertion order. Keys are kept in a normal form in which
  \<^verbatim>\<open>True\<close> and \<^verbatim>\<open>False\<close> are the integers they are equal to.
\<close>

type_synonym pydict = "(json \<times> json) list"

text \<open>
  The environment of one run. \<open>TEMPLATES\<close> is the bundled mapping of
  \<^verbatim>\<open>cursor_setup/templates.py\<close>, a module that is not part of the sources at hand and is
  taken as a parameter. \<open>net\<close> answers a request for a URL (\<open>None\<close>: \<^verbatim>\<open>requests.get\<close>
  raises a \<^verbatim>\<open>RequestException\<close>); \<open>cache_files\<close> are the files of \<^verbatim>\<open>CACHE_DIR\<close> by name;
  \<open>dest\<close> is the text of \<^verbatim>\<open>.cursorrules\<close> in the working directory, if it exists;
  \<open>confirm_reply\<close> is the answer to the prompt (\<open>None\<close>: the prompt is interrupted).
  \<open>cache_writable\<close> and \<open>dest_writable\<close> say whether a write of a cache file, or of the
  destination, succeeds; one that does not raises \<^verbatim>\<open>OSError\<close> and leaves the file as it was.
  Strings are text that UTF-8 encodes and decodes; what the console library does with a
  message is outside the model. The line separator of the platform is LF, so that
  \<^verbatim>\<open>write_text\<close> stores a text as it is.
\<close>

record world =
  TEMPLATES :: pydict
  net :: "json \<Rightarrow> response option"
  cache_files :: "string \<rightharpoonup> cfile"
  cache_writable :: bool
  dest :: "string option"
  dest_writable :: bool
  confirm_reply :: "bool option"
  trace :: "event list"

definition emit :: "event \<Rightarrow> world \<Rightarrow> world" where
  "emit e w = w\<lparr>trace := trace w @ [e]\<rparr>"

text \<open>The events of a run that starts in \<open>w\<close> and ends in \<open>w'\<close>.\<close>

definition events_since :: "world \<Rightarrow> world \<Rightarrow> event list" where
  "events_since w w' = drop (length (trace w)) (trace w')"

fun is_fetch :: "event \<Rightarrow> bool" where
  "is_fetch RegistryGet = True"
| "is_fetch (Download _) = True"
| "is_fetch _ = False"

fun is_cache_access :: "event \<Rightarrow> bool" where
  "is_cache_access (CacheRead _) = True"
| "is_cache_access (CacheWrite _ _) = True"
| "is_cache_access _ = False"

fun is_dest_write :: "event \<Rightarrow> bool" where
  "is_dest_write (DestWrite _) = True"
| "is_dest_write _ = False"

text \<open>An event that neither writes the destination file nor asks the user.\<close>

definition quiet :: "event \<Rightarrow> bool" where
  "quiet e = (\<not> is_dest_write e \<and> e \<noteq> Confirm)"

section \<open>Operations of the language\<close>

text \<open>\<^verbatim>\<open>obj[key]\<close> and \<^verbatim>\<open>key in obj\<close> for a string key.\<close>

definition obj_get :: "(string \<times> json) list \<Rightarrow> string \<Rightarrow> json option" where
  "obj_get kvs k = map_of (rev kvs) k"

fun py_getitem :: "json \<Rightarrow> string \<Rightarrow> exc + json" where
  "py_getitem (JObj kvs) k = (case obj_get kvs k of None \<Rightarrow> Inl KeyError | Some v \<Rightarrow> Inr v)"
| "py_getitem _ k = Inl TypeError"

fun str_contains :: "string \<Rightarrow> string \<Rightarrow> bool" where
  "str_contains [] sub = (sub = [])"
| "str_contains (c # cs) sub = (take (length sub) (c # cs) = sub \<or> str_contains cs sub)"

fun py_contains :: "json \<Rightarrow> string \<Rightarrow> exc + bool" where
  "py_contains (JObj kvs) k = Inr (obj_get kvs k \<noteq> None)"
| "py_contains (JStr s) k = Inr (str_contains s k)"
| "py_contains (JArr xs) k = Inr (JStr k \<in> set xs)"
| "py_contains _ k = Inl TypeError"

fun hashable :: "json \<Rightarrow> bool" where
  "hashable (JArr _) = False"
| "hashable (JObj _) = False"
| "hashable _ = True"

fun norm_key :: "json \<Rightarrow> json" where
  "norm_key (JBool b) = JInt (if b then 1 else 0)"
| "norm_key k = k"

definition dict_get :: "pydict \<Rightarrow> json \<Rightarrow> json option" where
  "dict_get d k = map_of d (norm_key k)"

definition dict_set :: "pydict \<Rightarrow> json \<Rightarrow> json \<Rightarrow> pydict" where
  "dict_set d k v = AList.update (norm_key k) v d"

text \<open>\<^verbatim>\<open>list(x)\<close>: the elements of a list, the characters of a string, the keys of an object.\<close>

fun seq_of :: "json \<Rightarrow> json list option" where
  "seq_of (JArr xs) = Some xs"
| "seq_of (JStr s) = Some (map (\<lambda>c. JStr [c]) s)"
| "seq_of (JObj kvs) = Some (map JStr (rev (remdups (rev (map fst kvs)))))"
| "seq_of _ = None"

text \<open>
  \<^verbatim>\<open>dict.update(other)\<close>. An object is copied key by key. Anything else is iterated, and each
  element has to be a sequence of two, of which the first is the key: an element that is
  not one raises, after the elements before it have been stored. The result is the
  exception, if any, and the dictionary as the call leaves it.
\<close>

fun merge_from_seq :: "pydict \<Rightarrow> json list \<Rightarrow> exc option \<times> pydict" where
  "merge_from_seq d [] = (None, d)"
| "merge_from_seq d (item # rest) =
     (case seq_of item of
        None \<Rightarrow> (Some TypeError, d)
      | Some [key, val] \<Rightarrow>
          if hashable key then merge_from_seq (dict_set d key val) rest
          else (Some TypeError, d)
      | Some _ \<Rightarrow> (Some ValueError, d))"

definition dict_update :: "pydict \<Rightarrow> json \<Rightarrow> exc option \<times> pydict" where
  "dict_update d other =
     (case other of
        JObj kvs \<Rightarrow> (None, foldl (\<lambda>acc (k, v). dict_set acc (JStr k) v) d kvs)
      | _ \<Rightarrow> (case seq_of other of
                None \<Rightarrow> (Some TypeError, d)
              | Some items \<Rightarrow> merge_from_seq d items))"

text \<open>\<^verbatim>\<open>sorted(keys)\<close> raises when it has to compare a string with a number or with \<^verbatim>\<open>None\<close>.\<close>

fun is_str :: "json \<Rightarrow> bool" where
  "is_str (JStr _) = True"
| "is_str _ = False"

fun is_num :: "json \<Rightarrow> bool" where
  "is_num (JInt _) = True"
| "is_num (JBool _) = True"
| "is_num _ = False"

definition sorted_raises :: "json list \<Rightarrow> bool" where
  "sorted_raises ks = (2 \<le> length ks \<and> \<not> (list_all is_str ks \<or> list_all is_num ks))"

text \<open>
  What \<^verbatim>\<open>read_text\<close> makes of the text stored in a file: it opens the file in text mode
  with universal newlines, where CR LF and a CR alone are both read as LF.
\<close>

abbreviation CR :: char where
  "CR \<equiv> CHR 0x0D"

abbreviation LF :: char where
  "LF \<equiv> CHR 0x0A"

fun universal_newlines :: "string \<Rightarrow> string" where
  "universal_newlines [] = []"
| "universal_newlines [c] = [if c = CR then LF else c]"
| "universal_newlines (c # d # cs) =
     (if c = CR \<and> d = LF then LF # universal_newlines cs
      else if c = CR then LF # universal_newlines (d # cs)
      else c # universal_newlines (d # cs))"

text \<open>The truth value of an \<^verbatim>\<open>Optional[str]\<close>: \<^verbatim>\<open>None\<close> and the empty string are false.\<close>

definition truthy :: "string option \<Rightarrow> bool" where
  "truthy s = (case s of None \<Rightarrow> False | Some t \<Rightarrow> t \<noteq> [])"

section \<open>The functions of \<^verbatim>\<open>main.py\<close>\<close>

definition REMOTE_REGISTRY_URL :: string where
  "REMOTE_REGISTRY_URL = ''https://raw.githubusercontent.com/ThanhNguyxn/cursor-setup/main/rules.json''"

text \<open>The name of a template's file in the cache directory.\<close>

definition get_cache_path :: "string \<Rightarrow> string" where
  "get_cache_path name = name @ ''.cursorrules''"

definition load_from_cache :: "string \<Rightarrow> world \<Rightarrow> string option \<times> world" where
  "load_from_cache name w =
     (let cache_path = get_cache_path name;
          w1 = emit (CacheRead cache_path) w
      in case cache_files w cache_path of
           None \<Rightarrow> (None, w1)
         | Some Unreadable \<Rightarrow> (None, w1)
         | Some (Readable stored) \<Rightarrow> (Some (universal_newlines stored), w1))"

definition save_to_cache :: "string \<Rightarrow> string \<Rightarrow> world \<Rightarrow> world" where
  "save_to_cache name content w =
     (let cache_path = get_cache_path name;
          w1 = emit (CacheWrite cache_path content) w
      in if cache_writable w
         then w1\<lparr>cache_files := (cache_files w1)(cache_path \<mapsto> Readable content)\<rparr>
         else w1)"

text \<open>\<^verbatim>\<open>raise_for_status\<close> raises for the statuses 400 to 599.\<close>

definition raise_for_status :: "response \<Rightarrow> bool" where
  "raise_for_status r = (400 \<le> status_code r \<and> status_code r < 600)"

definition get_registry :: "world \<Rightarrow> (exc + pydict) \<times> world" where
  "get_registry w =
     (let all_templates = TEMPLATES w;
          w1 = emit RegistryGet w
      in case net w (JStr REMOTE_REGISTRY_URL) of
           None \<Rightarrow> (Inr all_templates, w1)
         | Some r \<Rightarrow>
             if raise_for_status r then (Inr all_templates, w1)
             else (case json_body r of
                     None \<Rightarrow> (Inr all_templates, w1)
                   | Some (JObj kvs) \<Rightarrow>
                       (case obj_get kvs ''templates'' of
                          None \<Rightarrow> (Inr all_templates, w1)
                        | Some remote_templates \<Rightarrow>
                            (case dict_update all_templates remote_templates of
                               (None, d) \<Rightarrow> (Inr d, w1)
                             | (Some e, d) \<Rightarrow>
                                 if e = ValueError then (Inr d, w1) else (Inl e, w1)))
                   | Some _ \<Rightarrow> (Inr all_templates, w1)))"

definition download_from_url :: "json \<Rightarrow> world \<Rightarrow> (exc + string) \<times> world" where
  "download_from_url url w =
     (let w1 = emit (Download url) w
      in case net w url of
           None \<Rightarrow> (Inl RequestException, w1)
         | Some r \<Rightarrow>
             if raise_for_status r then (Inl RequestException, w1)
             else (Inr (body r), w1))"

definition write_cursorrules :: "json \<Rightarrow> bool \<Rightarrow> world \<Rightarrow> (exc + unit) \<times> world" where
  "write_cursorrules content force w =
     (let write = (\<lambda>w'.
            case content of
              JStr s \<Rightarrow>
                (let w1 = emit (DestWrite s) w'
                 in if dest_writable w' then (Inr (), w1\<lparr>dest := Some s\<rparr>)
                    else (Inl (Exit 1), emit (Print ErrWriting) w1))
            | _ \<Rightarrow> (Inl TypeError, w'))
      in if dest w \<noteq> None \<and> \<not> force then
           (let w1 = emit Confirm (emit (Print WarnExists) w)
            in case confirm_reply w of
                 None \<Rightarrow> (Inl Abort, w1)
               | Some overwrite \<Rightarrow>
                   if \<not> overwrite then (Inl (Exit 0), emit (Print Cancelled) w1)
                   else write w1)
         else write w)"

text \<open>
  The part of \<^verbatim>\<open>install\<close> that turns the template of a name into its text (from
  \<^verbatim>\<open>content = None\<close> to the end of the \<^verbatim>\<open>if "url" in template\<close> statement).
\<close>

definition install_content :: "string \<Rightarrow> json \<Rightarrow> bool \<Rightarrow> world \<Rightarrow> (exc + json) \<times> world" where
  "install_content name template no_cache w =
     (case py_contains template ''url'' of
        Inl e \<Rightarrow> (Inl e, w)
      | Inr has_url \<Rightarrow>
          if has_url then
            (let tried =
                   (if \<not> no_cache then
                      (case load_from_cache name w of
                         (None, w1) \<Rightarrow> (Inr None, w1)
                       | (Some cached_content, w1) \<Rightarrow>
                           if cached_content \<noteq> [] then
                             (case py_getitem template ''name'' of
                                Inl e \<Rightarrow> (Inl e, w1)
                              | Inr _ \<Rightarrow> (Inr (Some cached_content), emit (Print LoadedFromCache) w1))
                           else (Inr None, w1))
                    else (Inr None, w))
             in case tried of
                  (Inl e, w1) \<Rightarrow> (Inl e, w1)
                | (Inr (Some content), w1) \<Rightarrow> (Inr (JStr content), w1)
                | (Inr None, w1) \<Rightarrow>
                    (case py_getitem template ''name'' of
                       Inl e \<Rightarrow> (Inl e, w1)
                     | Inr _ \<Rightarrow>
                         (let w2 = emit (Print Fetching) w1
                          in case py_getitem template ''url'' of
                               Inl e \<Rightarrow> (Inl e, w2)
                             | Inr url \<Rightarrow>
                                 (case download_from_url url w2 of
                                    (Inr content, w3) \<Rightarrow>
                                      (Inr (JStr content), save_to_cache name content w3)
                                  | (Inl e, w3) \<Rightarrow>
                                      if e = RequestException then
                                        (case load_from_cache name w3 of
                                           (None, w4) \<Rightarrow>
                                             (Inl (Exit 1), emit (Print FailedTemplate) w4)
                                         | (Some cached_content, w4) \<Rightarrow>
                                             if cached_content \<noteq> [] then
                                               (Inr (JStr cached_content),
                                                emit (Print NetworkErrorUsingCached) w4)
                                             else (Inl (Exit 1), emit (Print FailedTemplate) w4))
                                      else (Inl e, w3)))))
          else
            (case py_getitem template ''content'' of
               Inl e \<Rightarrow> (Inl e, w)
             | Inr content \<Rightarrow> (Inr content, w)))"

text \<open>The branch of \<^verbatim>\<open>install\<close> and \<^verbatim>\<open>show\<close> for a name that the registry does not have.\<close>

definition not_found :: "pydict \<Rightarrow> world \<Rightarrow> (exc + unit) \<times> world" where
  "not_found all_templates w =
     (let w1 = emit (Print NotFound) w
      in if sorted_raises (map fst all_templates) then (Inl TypeError, w1)
         else (Inl (Exit 1), emit (Print Available) w1))"

definition install :: "string option \<Rightarrow> string option \<Rightarrow> bool \<Rightarrow> bool \<Rightarrow> world \<Rightarrow> (exc + unit) \<times> world" where
  "install name url force no_cache w =
     (if truthy url \<and> truthy name then (Inl (Exit 1), emit (Print ErrBoth) w)
      else if \<not> truthy url \<and> \<not> truthy name then (Inl (Exit 1), emit (Print ErrNeither) w)
      else if truthy url then
        (case download_from_url (JStr (case url of Some u \<Rightarrow> u | None \<Rightarrow> [])) (emit (Print Downloading) w) of
           (Inl e, w1) \<Rightarrow>
             if e = RequestException then (Inl (Exit 1), emit (Print FailedDownload) w1)
             else (Inl e, w1)
         | (Inr content, w1) \<Rightarrow>
             (case write_cursorrules (JStr content) force w1 of
                (Inl e, w2) \<Rightarrow> (Inl e, w2)
              | (Inr _, w2) \<Rightarrow> (Inr (), emit (Print SuccessUrl) w2)))
      else
        (let n = (case name of Some n \<Rightarrow> n | None \<Rightarrow> [])
         in case get_registry w of
              (Inl e, w1) \<Rightarrow> (Inl e, w1)
            | (Inr all_templates, w1) \<Rightarrow>
                (case dict_get all_templates (JStr n) of
                   None \<Rightarrow> not_found all_templates w1
                 | Some template \<Rightarrow>
                     (case install_content n template no_cache w1 of
                        (Inl e, w2) \<Rightarrow> (Inl e, w2)
                      | (Inr content, w2) \<Rightarrow>
                          (case write_cursorrules content force w2 of
                             (Inl e, w3) \<Rightarrow> (Inl e, w3)
                           | (Inr _, w3) \<Rightarrow>
                               (case py_getitem template ''name'' of
                                  Inl e \<Rightarrow> (Inl e, w3)
                                | Inr _ \<Rightarrow> (Inr (), emit (Print Success) w3)))))))"

text \<open>The part of \<^verbatim>\<open>show\<close> that turns the template of a name into its text.\<close>

definition show_content :: "string \<Rightarrow> json \<Rightarrow> world \<Rightarrow> (exc + json) \<times> world" where
  "show_content name template w =
     (case py_contains template ''url'' of
        Inl e \<Rightarrow> (Inl e, w)
      | Inr has_url \<Rightarrow>
          if has_url then
            (let (cached, w1) = load_from_cache name w
             in if truthy cached then
                  (Inr (JStr (case cached of Some c \<Rightarrow> c | None \<Rightarrow> [])),
                   emit (Print LoadedFromCache) w1)
                else
                  (case py_getitem template ''name'' of
                     Inl e \<Rightarrow> (Inl e, w1)
                   | Inr _ \<Rightarrow>
                       (let w2 = emit (Print FetchingPreview) w1
                        in case py_getitem template ''url'' of
                             Inl e \<Rightarrow> (Inl e, w2)
                           | Inr url \<Rightarrow>
                               (case download_from_url url w2 of
                                  (Inr content, w3) \<Rightarrow>
                                    (Inr (JStr content), save_to_cache name content w3)
                                | (Inl e, w3) \<Rightarrow>
                                    if e = RequestException
                                    then (Inl (Exit 1), emit (Print FailedPreview) w3)
                                    else (Inl e, w3)))))
          else
            (case py_getitem template ''content'' of
               Inl e \<Rightarrow> (Inl e, w)
             | Inr content \<Rightarrow> (Inr content, w)))"

text \<open>The command \<^verbatim>\<open>show\<close>.\<close>

definition show_cmd :: "string \<Rightarrow> world \<Rightarrow> (exc + unit) \<times> world" where
  "show_cmd name w =
     (case get_registry w of
        (Inl e, w1) \<Rightarrow> (Inl e, w1)
      | (Inr all_templates, w1) \<Rightarrow>
          (case dict_get all_templates (JStr name) of
             None \<Rightarrow> not_found all_templates w1
           | Some template \<Rightarrow>
               (case show_content name template w1 of
                  (Inl e, w2) \<Rightarrow> (Inl e, w2)
                | (Inr content, w2) \<Rightarrow>
                    (case py_getitem template ''name'' of
                       Inl e \<Rightarrow> (Inl e, w2)
                     | Inr _ \<Rightarrow> (Inr (), emit (Print (Preview content)) w2)))))"

section \<open>Concrete environments\<close>

text \<open>
  A bundled mapping with two inline templates, a registry document that overrides one of
  them and adds a remote one, and the environments in which the theorems below are
  evaluated.
\<close>

definition python_template :: json where
  "python_template =
     JObj [(''name'', JStr ''Python''), (''description'', JStr ''Python rules''),
           (''content'', JStr ''# Python rules'')]"

definition go_template :: json where
  "go_template =
     JObj [(''name'', JStr ''Go''), (''description'', JStr ''Go rules''),
           (''content'', JStr ''# Go rules'')]"

definition python_url :: string where
  "python_url = ''https://example.com/python.cursorrules''"

definition python_override :: json where
  "python_override =
     JObj [(''name'', JStr ''Python''), (''description'', JStr ''Python rules''),
           (''url'', JStr python_url)]"

definition react_url :: string where
  "react_url = ''https://example.com/react.cursorrules''"

definition react_template :: json where
  "react_template =
     JObj [(''name'', JStr ''React''), (''description'', JStr ''React rules''),
           (''url'', JStr react_url)]"

definition bundled :: pydict where
  "bundled = [(JStr ''python'', python_template), (JStr ''go'', go_template)]"

definition remote_templates :: "(string \<times> json) list" where
  "remote_templates = [(''python'', python_override), (''react'', react_template)]"

definition registry_doc :: json where
  "registry_doc = JObj [(''templates'', JObj remote_templates)]"

definition no_network :: "json \<Rightarrow> response option" where
  "no_network url = None"

text \<open>No network, an empty cache, no destination file yet.\<close>

definition offline :: world where
  "offline =
     \<lparr>TEMPLATES = bundled, net = no_network, cache_files = Map.empty, cache_writable = True,
      dest = None, dest_writable = True, confirm_reply = Some False, trace = []\<rparr>"

definition unplug :: "world \<Rightarrow> world" where
  "unplug w = w\<lparr>net := no_network\<rparr>"

text \<open>The registry answers; the templates it points to do not.\<close>

definition registry_reply :: response where
  "registry_reply =
     \<lparr>status_code = 200,
      body = ''{\"templates\": {\"python\": {\"name\": \"Python\", \"description\": \"Python rules\", \"url\": \"https://example.com/python.cursorrules\"}, \"react\": {\"name\": \"React\", \"description\": \"React rules\", \"url\": \"https://example.com/react.cursorrules\"}}}'',
      json_body = Some registry_doc\<rparr>"

definition registry_only :: "json \<Rightarrow> response option" where
  "registry_only url = (if url = JStr REMOTE_REGISTRY_URL then Some registry_reply else None)"

definition content_down :: world where
  "content_down = offline\<lparr>net := registry_only\<rparr>"

text \<open>The registry and the React template both answer.\<close>

definition all_up :: "json \<Rightarrow> response option" where
  "all_up url =
     (if url = JStr react_url
      then Some \<lparr>status_code = 200, body = ''# React rules v1'', json_body = None\<rparr>
      else registry_only url)"

definition online :: world where
  "online = offline\<lparr>net := all_up\<rparr>"

text \<open>The React template answers with a text that has a CR LF in it.\<close>

definition crlf_up :: "json \<Rightarrow> response option" where
  "crlf_up url =
     (if url = JStr react_url
      then Some \<lparr>status_code = 200, body = [CHR ''A'', CR, LF, CHR ''B''], json_body = None\<rparr>
      else registry_only url)"

text \<open>Cache directories: an earlier copy of the React template, and an empty file for it.\<close>

definition stale_cache :: "string \<rightharpoonup> cfile" where
  "stale_cache = [get_cache_path ''react'' \<mapsto> Readable ''# React rules v0'']"

definition empty_entry :: "string \<rightharpoonup> cfile" where
  "empty_entry = [get_cache_path ''react'' \<mapsto> Readable []]"

text \<open>A registry document whose \<^verbatim>\<open>templates\<close> member is a number.\<close>

definition malformed :: "json \<Rightarrow> response option" where
  "malformed url =
     (if url = JStr REMOTE_REGISTRY_URL
      then Some \<lparr>status_code = 200, body = ''{\"templates\": 5}'',
                 json_body = Some (JObj [(''templates'', JInt 5)])\<rparr>
      else None)"

text \<open>
  A registry document whose \<^verbatim>\<open>templates\<close> member is a list: a pair, then a string of
  three characters.
\<close>

definition half_list :: "json \<Rightarrow> response option" where
  "half_list url =
     (if url = JStr REMOTE_REGISTRY_URL
      then Some \<lparr>status_code = 200, body = ''{\"templates\": [[\"react\", 1], \"abc\"]}'',
                 json_body = Some (JObj [(''templates'',
                    JArr [JArr [JStr ''react'', JInt 1], JStr ''abc''])])\<rparr>
      else None)"

section \<open>How the functions thread the environment\<close>

lemma emit_fields [simp]:
  "TEMPLATES (emit e w) = TEMPLATES w"
  "net (emit e w) = net w"
  "cache_files (emit e w) = cache_files w"
  "cache_writable (emit e w) = cache_writable w"
  "dest (emit e w) = dest w"
  "dest_writable (emit e w) = dest_writable w"
  "confirm_reply (emit e w) = confirm_reply w"
  "trace (emit e w) = trace w @ [e]"
  by (simp_all add: emit_def)

lemma get_registry_snd: "snd (get_registry w) = emit RegistryGet w"
  by (auto simp: get_registry_def Let_def split: option.splits json.splits prod.splits)

lemma download_snd: "snd (download_from_url url w) = emit (Download url) w"
  by (simp add: download_from_url_def Let_def split: option.splits)

lemma download_fst_net:
  "net w' = net w \<Longrightarrow> fst (download_from_url url w') = fst (download_from_url url w)"
  by (simp add: download_from_url_def Let_def split: option.splits)

lemma download_eq:
  "download_from_url url w = (fst (download_from_url url w), emit (Download url) w)"
  by (metis download_snd prod.collapse)

lemma universal_newlines_empty [simp]: "universal_newlines s = [] \<longleftrightarrow> s = []"
  by (induction s rule: universal_newlines.induct) auto


lemma load_readable:
  "cache_files w (get_cache_path name) = Some (Readable txt) \<Longrightarrow>
     load_from_cache name w =
       (Some (universal_newlines txt), emit (CacheRead (get_cache_path name)) w)"
  by (simp add: load_from_cache_def Let_def)

lemma load_absent:
  "cache_files w (get_cache_path name) = None \<Longrightarrow>
     load_from_cache name w = (None, emit (CacheRead (get_cache_path name)) w)"
  by (simp add: load_from_cache_def Let_def)

lemma getitem_contains: "py_getitem t k = Inr v \<Longrightarrow> py_contains t k = Inr True"
  by (cases t) (auto split: option.splits)

section \<open>The registry\<close>

lemma dict_get_set:
  "dict_get (dict_set d k v) k' = (if norm_key k' = norm_key k then Some v else dict_get d k')"
  by (simp add: dict_get_def dict_set_def update_conv')

lemma dict_get_foldl:
  "dict_get (foldl (\<lambda>acc (k, v). dict_set acc (JStr k) v) d kvs) (JStr k) =
     (case obj_get kvs k of Some v \<Rightarrow> Some v | None \<Rightarrow> dict_get d (JStr k))"
  by (induction kvs arbitrary: d rule: rev_induct) (auto simp: obj_get_def dict_get_set)

text \<open>
  C5. When the registry request is answered with a document whose \<^verbatim>\<open>templates\<close> member is
  an object, \<^verbatim>\<open>get_registry\<close> returns a mapping in which every key of that object has the
  remote descriptor, whether or not the bundled mapping has the key too, and every other
  key has what the bundled mapping has for it.
\<close>

theorem registry_remote_wins:
  assumes "net w (JStr REMOTE_REGISTRY_URL) = Some r"
    and "\<not> raise_for_status r"
    and "json_body r = Some (JObj doc)"
    and "obj_get doc ''templates'' = Some (JObj remote)"
  shows "\<exists>reg. fst (get_registry w) = Inr reg \<and>
           (\<forall>k. dict_get reg (JStr k) =
                 (case obj_get remote k of
                    Some d \<Rightarrow> Some d
                  | None \<Rightarrow> dict_get (TEMPLATES w) (JStr k)))"
  using assms by (simp add: get_registry_def dict_update_def dict_get_foldl)

theorem registry_remote_wins_witness:
  "net online (JStr REMOTE_REGISTRY_URL) = Some registry_reply \<and>
   \<not> raise_for_status registry_reply \<and>
   json_body registry_reply = Some (JObj [(''templates'', JObj remote_templates)]) \<and>
   obj_get [(''templates'', JObj remote_templates)] ''templates'' = Some (JObj remote_templates) \<and>
   dict_get (TEMPLATES online) (JStr ''python'') = Some python_template \<and>
   dict_get (TEMPLATES online) (JStr ''go'') = Some go_template \<and>
   obj_get remote_templates ''python'' = Some python_override \<and>
   obj_get remote_templates ''go'' = None \<and>
   (\<exists>reg. fst (get_registry online) = Inr reg \<and>
      dict_get reg (JStr ''python'') = Some python_override \<and>
      dict_get reg (JStr ''go'') = Some go_template)"
proof -
  have h1: "net online (JStr REMOTE_REGISTRY_URL) = Some registry_reply"
    by (simp add: online_def offline_def all_up_def registry_only_def
        REMOTE_REGISTRY_URL_def react_url_def)
  have h2: "\<not> raise_for_status registry_reply"
    by (simp add: raise_for_status_def registry_reply_def)
  have h3: "json_body registry_reply = Some (JObj [(''templates'', JObj remote_templates)])"
    by (simp add: registry_reply_def registry_doc_def)
  have h4: "obj_get [(''templates'', JObj remote_templates)] ''templates''
              = Some (JObj remote_templates)"
    by (simp add: obj_get_def)
  have b: "dict_get (TEMPLATES online) (JStr ''python'') = Some python_template"
          "dict_get (TEMPLATES online) (JStr ''go'') = Some go_template"
    by (simp_all add: online_def offline_def bundled_def dict_get_def)
  have r: "obj_get remote_templates ''python'' = Some python_override"
          "obj_get remote_templates ''go'' = None"
    by (simp_all add: remote_templates_def obj_get_def)
  from registry_remote_wins [OF h1 h2 h3 h4]
  obtain reg where reg: "fst (get_registry online) = Inr reg"
    and all: "\<And>k. dict_get reg (JStr k) =
                 (case obj_get remote_templates k of
                    Some d \<Rightarrow> Some d
                  | None \<Rightarrow> dict_get (TEMPLATES online) (JStr k))"
    by blast
  have "dict_get reg (JStr ''python'') = Some python_override"
       "dict_get reg (JStr ''go'') = Some go_template"
    using all [of "''python''"] all [of "''go''"] r b by simp_all
  with reg h1 h2 h3 h4 b r show ?thesis by blast
qed

text \<open>
  What \<^verbatim>\<open>get_registry\<close> does when the registry cannot be had: the request raises, the
  status is an error, the body does not parse, the document is not an object, or it has
  no \<^verbatim>\<open>templates\<close> member. The bundled mapping comes back as it is.
\<close>

lemma registry_unavailable:
  assumes "case net w (JStr REMOTE_REGISTRY_URL) of
             None \<Rightarrow> True
           | Some r \<Rightarrow>
               raise_for_status r \<or>
               (case json_body r of
                  None \<Rightarrow> True
                | Some (JObj kvs) \<Rightarrow> obj_get kvs ''templates'' = None
                | Some _ \<Rightarrow> True)"
  shows "get_registry w = (Inr (TEMPLATES w), emit RegistryGet w)"
  using assms
  by (auto simp: get_registry_def Let_def split: option.splits json.splits)

text \<open>
  C2. A registry document \<^verbatim>\<open>{"templates": 5}\<close> passes the check that \<^verbatim>\<open>get_registry\<close> makes
  of its structure; \<^verbatim>\<open>dict.update\<close> then raises \<^verbatim>\<open>TypeError\<close>, which the handler does not
  list, and the installation of a bundled template ends with it. A list whose second
  element is not a pair raises \<^verbatim>\<open>ValueError\<close>, which the handler swallows after the first
  element has been stored.
\<close>

theorem registry_non_mapping_raises:
  "fst (get_registry (offline\<lparr>net := malformed\<rparr>)) = Inl TypeError \<and>
   fst (install (Some ''python'') None False False (offline\<lparr>net := malformed\<rparr>)) = Inl TypeError \<and>
   exit_code (fst (install (Some ''python'') None False False (offline\<lparr>net := malformed\<rparr>))) = 1 \<and>
   fst (get_registry (offline\<lparr>net := half_list\<rparr>)) = Inr (bundled @ [(JStr ''react'', JInt 1)])"
  by (simp add: get_registry_def install_def offline_def malformed_def half_list_def
      raise_for_status_def obj_get_def dict_update_def truthy_def bundled_def dict_set_def)

section \<open>Resolving the content of a remote template\<close>

lemma download_fails:
  "fst (download_from_url url w) = Inl RequestException \<Longrightarrow> net w' = net w \<Longrightarrow>
     download_from_url url w' = (Inl RequestException, emit (Download url) w')"
  using download_fst_net [of w' w url] download_eq [of url w'] by simp


lemma get_registry_eq:
  "fst (get_registry w) = Inr reg \<Longrightarrow> get_registry w = (Inr reg, emit RegistryGet w)"
  by (metis get_registry_snd prod.collapse)

text \<open>
  With a text in the cache that is not empty, a failed download falls back to it, as
  \<^verbatim>\<open>read_text\<close> reads it.
\<close>

lemma fallback_result:
  assumes "py_getitem template ''url'' = Inr url"
    and "py_getitem template ''name'' = Inr label"
    and "fst (download_from_url url w) = Inl RequestException"
    and "cache_files w (get_cache_path name) = Some (Readable txt)"
    and "txt \<noteq> []"
  shows "fst (install_content name template no_cache w) = Inr (JStr (universal_newlines txt))"
  using assms getitem_contains [OF assms(1)]
  by (simp add: install_content_def load_readable download_fails Let_def)


lemmas env_defs =
  offline_def online_def content_down_def unplug_def no_network_def registry_only_def
  registry_reply_def
  all_up_def stale_cache_def empty_entry_def REMOTE_REGISTRY_URL_def react_url_def
  python_url_def

lemmas template_defs =
  python_template_def go_template_def python_override_def react_template_def bundled_def
  remote_templates_def registry_doc_def

lemmas run_defs =
  install_def install_content_def show_content_def get_registry_def download_from_url_def
  load_from_cache_def save_to_cache_def write_cursorrules_def not_found_def
  raise_for_status_def get_cache_path_def truthy_def events_since_def obj_get_def
  dict_get_def dict_set_def dict_update_def emit_def Let_def

text \<open>
  C1, as the code has it. The template of the name has a \<^verbatim>\<open>url\<close> and a \<^verbatim>\<open>name\<close>, and the
  download of that URL fails. Whenever the download is made, that is with \<^verbatim>\<open>--no-cache\<close> or
  after the cache gave nothing, the cache is read right after it has failed. And when the
  cache holds a text for the name that is not empty, that text, as \<^verbatim>\<open>read_text\<close> reads it,
  is what the resolution returns, with and without \<^verbatim>\<open>--no-cache\<close>.
\<close>

theorem stale_cache_beats_failure:
  assumes "py_getitem template ''url'' = Inr url"
    and "py_getitem template ''name'' = Inr label"
    and "fst (download_from_url url w) = Inl RequestException"
  shows "(no_cache \<or> \<not> truthy (fst (load_from_cache name w)) \<longrightarrow>
            events_since w (snd (install_content name template no_cache w)) =
              (if no_cache then [] else [CacheRead (get_cache_path name)]) @
              [Print Fetching, Download url, CacheRead (get_cache_path name),
               Print (if truthy (fst (load_from_cache name w))
                      then NetworkErrorUsingCached else FailedTemplate)]) \<and>
         (cache_files w (get_cache_path name) = Some (Readable txt) \<and> txt \<noteq> [] \<longrightarrow>
            fst (install_content name template no_cache w) = Inr (JStr (universal_newlines txt)))"
proof -
  have has: "py_contains template ''url'' = Inr True"
    by (rule getitem_contains [OF assms(1)])
  have attempt: "events_since w (snd (install_content name template no_cache w)) =
              (if no_cache then [] else [CacheRead (get_cache_path name)]) @
              [Print Fetching, Download url, CacheRead (get_cache_path name),
               Print (if truthy (fst (load_from_cache name w))
                      then NetworkErrorUsingCached else FailedTemplate)]"
    if "no_cache \<or> \<not> truthy (fst (load_from_cache name w))"
    using that assms has
    by (auto simp: install_content_def load_from_cache_def download_fails events_since_def
        truthy_def Let_def split: option.splits cfile.splits)
  have cached: "fst (install_content name template no_cache w) = Inr (JStr (universal_newlines txt))"
    if "cache_files w (get_cache_path name) = Some (Readable txt)" and "txt \<noteq> []"
    by (rule fallback_result [OF assms that])
  from attempt cached show ?thesis by blast
qed

theorem stale_cache_beats_failure_witness:
  "py_getitem react_template ''url'' = Inr (JStr react_url) \<and>
   py_getitem react_template ''name'' = Inr (JStr ''React'') \<and>
   fst (download_from_url (JStr react_url) (content_down\<lparr>cache_files := stale_cache\<rparr>))
     = Inl RequestException \<and>
   cache_files (content_down\<lparr>cache_files := stale_cache\<rparr>) (get_cache_path ''react'')
     = Some (Readable ''# React rules v0'') \<and>
   ''# React rules v0'' \<noteq> [] \<and>
   events_since (content_down\<lparr>cache_files := stale_cache\<rparr>)
     (snd (install_content ''react'' react_template True (content_down\<lparr>cache_files := stale_cache\<rparr>)))
     = [Print Fetching, Download (JStr react_url), CacheRead (get_cache_path ''react''),
        Print NetworkErrorUsingCached] \<and>
   fst (install_content ''react'' react_template True (content_down\<lparr>cache_files := stale_cache\<rparr>))
     = Inr (JStr ''# React rules v0'')"
proof -
  let ?w = "content_down\<lparr>cache_files := stale_cache\<rparr>"
  have h1: "py_getitem react_template ''url'' = Inr (JStr react_url)"
    by (simp add: react_template_def obj_get_def)
  have h2: "py_getitem react_template ''name'' = Inr (JStr ''React'')"
    by (simp add: react_template_def obj_get_def)
  have h3: "fst (download_from_url (JStr react_url) ?w) = Inl RequestException"
    by (simp add: run_defs env_defs)
  have h4: "cache_files ?w (get_cache_path ''react'') = Some (Readable ''# React rules v0'')"
    by (simp add: env_defs)
  have h5: "''# React rules v0'' \<noteq> []"
    by simp
  have h6: "truthy (fst (load_from_cache ''react'' ?w))"
    by (simp add: load_readable [OF h4] truthy_def)
  from stale_cache_beats_failure [OF h1 h2 h3, of True "''react''" "''# React rules v0''"]
    h1 h2 h3 h4 h5 h6
  show ?thesis by simp
qed

text \<open>
  C1 as it is stated fails where the cached text is the empty string: the entry exists,
  the download fails, and the installation ends with \<^verbatim>\<open>Exit(1)\<close>.
\<close>

theorem empty_cache_entry_is_no_fallback:
  "cache_files (content_down\<lparr>cache_files := empty_entry\<rparr>) (get_cache_path ''react'')
     = Some (Readable []) \<and>
   fst (download_from_url (JStr react_url) (content_down\<lparr>cache_files := empty_entry\<rparr>))
     = Inl RequestException \<and>
   fst (install_content ''react'' react_template True (content_down\<lparr>cache_files := empty_entry\<rparr>))
     = Inl (Exit 1) \<and>
   fst (install (Some ''react'') None False True (content_down\<lparr>cache_files := empty_entry\<rparr>))
     = Inl (Exit 1)"
  by (simp add: run_defs env_defs template_defs)

text \<open>
  C3, as the code has it. The template has a \<^verbatim>\<open>url\<close> and a \<^verbatim>\<open>name\<close> and the cache holds a text
  for the name that is not empty. Then \<^verbatim>\<open>install\<close> without \<^verbatim>\<open>--no-cache\<close>, and \<^verbatim>\<open>show\<close>, return
  that text, as \<^verbatim>\<open>read_text\<close> reads it, and request nothing from the network while they
  resolve the content.
\<close>

theorem cache_hit_skips_network:
  assumes "py_getitem template ''url'' = Inr url"
    and "py_getitem template ''name'' = Inr label"
    and "cache_files w (get_cache_path name) = Some (Readable txt)"
    and "txt \<noteq> []"
  shows "fst (install_content name template False w) = Inr (JStr (universal_newlines txt)) \<and>
         filter is_fetch (events_since w (snd (install_content name template False w))) = [] \<and>
         fst (show_content name template w) = Inr (JStr (universal_newlines txt)) \<and>
         filter is_fetch (events_since w (snd (show_content name template w))) = []"
proof -
  have has: "py_contains template ''url'' = Inr True"
    by (rule getitem_contains [OF assms(1)])
  have hit: "load_from_cache name w =
      (Some (universal_newlines txt), emit (CacheRead (get_cache_path name)) w)"
    by (rule load_readable [OF assms(3)])
  have inst: "install_content name template False w =
      (Inr (JStr (universal_newlines txt)),
       emit (Print LoadedFromCache) (emit (CacheRead (get_cache_path name)) w))"
    using has hit assms(2,4) by (simp add: install_content_def Let_def)
  have shw: "show_content name template w =
      (Inr (JStr (universal_newlines txt)),
       emit (Print LoadedFromCache) (emit (CacheRead (get_cache_path name)) w))"
    using has hit assms(4) by (simp add: show_content_def truthy_def Let_def)
  show ?thesis
    by (simp add: inst shw events_since_def)
qed

theorem cache_hit_skips_network_witness:
  "py_getitem react_template ''url'' = Inr (JStr react_url) \<and>
   py_getitem react_template ''name'' = Inr (JStr ''React'') \<and>
   cache_files (online\<lparr>cache_files := stale_cache\<rparr>) (get_cache_path ''react'')
     = Some (Readable ''# React rules v0'') \<and>
   ''# React rules v0'' \<noteq> [] \<and>
   fst (install_content ''react'' react_template False (online\<lparr>cache_files := stale_cache\<rparr>))
     = Inr (JStr ''# React rules v0'') \<and>
   filter is_fetch (events_since (online\<lparr>cache_files := stale_cache\<rparr>)
     (snd (install_content ''react'' react_template False (online\<lparr>cache_files := stale_cache\<rparr>)))) = [] \<and>
   fst (show_content ''react'' react_template (online\<lparr>cache_files := stale_cache\<rparr>))
     = Inr (JStr ''# React rules v0'')"
proof -
  let ?w = "online\<lparr>cache_files := stale_cache\<rparr>"
  have h1: "py_getitem react_template ''url'' = Inr (JStr react_url)"
    by (simp add: react_template_def obj_get_def)
  have h2: "py_getitem react_template ''name'' = Inr (JStr ''React'')"
    by (simp add: react_template_def obj_get_def)
  have h3: "cache_files ?w (get_cache_path ''react'') = Some (Readable ''# React rules v0'')"
    by (simp add: env_defs)
  have h4: "''# React rules v0'' \<noteq> []"
    by simp
  from cache_hit_skips_network [OF h1 h2 h3 h4] h1 h2 h3
  show ?thesis by simp
qed

text \<open>
  C3 as it is stated fails where the cached text is the empty string: the entry is there,
  \<^verbatim>\<open>--no-cache\<close> is not given, and the template is downloaded all the same.
\<close>

theorem empty_cache_entry_is_refetched:
  "cache_files (online\<lparr>cache_files := empty_entry\<rparr>) (get_cache_path ''react'')
     = Some (Readable []) \<and>
   filter is_fetch (events_since (online\<lparr>cache_files := empty_entry\<rparr>)
     (snd (install_content ''react'' react_template False (online\<lparr>cache_files := empty_entry\<rparr>))))
     = [Download (JStr react_url)] \<and>
   fst (install_content ''react'' react_template False (online\<lparr>cache_files := empty_entry\<rparr>))
     = Inr (JStr ''# React rules v1'')"
  by (simp add: run_defs env_defs template_defs)




text \<open>
  A download with a CR LF in it: the installation that fetches it gets the text as it
  came, the next one without network gets it with LF.
\<close>

lemma crlf_download_is_read_back_with_lf:
  "fst (install_content ''react'' react_template False (online\<lparr>net := crlf_up\<rparr>))
     = Inr (JStr [CHR ''A'', CR, LF, CHR ''B'']) \<and>
   fst (install_content ''react'' react_template False
          (unplug (snd (install_content ''react'' react_template False
                          (online\<lparr>net := crlf_up\<rparr>)))))
     = Inr (JStr [CHR ''A'', LF, CHR ''B''])"
  by (simp add: run_defs env_defs template_defs crlf_up_def)

section \<open>Installing\<close>

lemma install_content_frame:
  "\<exists>evs. trace (snd (install_content name template no_cache w)) = trace w @ evs \<and>
         list_all quiet evs \<and>
         dest (snd (install_content name template no_cache w)) = dest w \<and>
         dest_writable (snd (install_content name template no_cache w)) = dest_writable w \<and>
         confirm_reply (snd (install_content name template no_cache w)) = confirm_reply w"
  unfolding install_content_def load_from_cache_def save_to_cache_def download_from_url_def Let_def
  by (auto simp: quiet_def split: sum.splits option.splits cfile.splits prod.splits)

lemma quiet_events:
  "list_all quiet evs \<Longrightarrow> filter is_dest_write evs = [] \<and> Confirm \<notin> set evs"
  by (induction evs) (auto simp: quiet_def)

lemma quiet_prefix:
  "list_all quiet pre \<Longrightarrow>
     filter is_dest_write (takeWhile (\<lambda>e. e \<noteq> Confirm) (pre @ Print m # Confirm # rest)) = []"
  by (induction pre) (auto simp: quiet_def)

lemma quiet_all:
  "list_all quiet pre \<Longrightarrow> filter is_dest_write (takeWhile (\<lambda>e. e \<noteq> Confirm) pre) = []"
  by (induction pre) (auto simp: quiet_def)

lemma write_asks:
  assumes "dest w = Some old"
  shows "\<exists>rest. trace (snd (write_cursorrules content False w))
                  = trace w @ Print WarnExists # Confirm # rest"
  using assms
  by (auto simp: write_cursorrules_def Let_def split: option.splits json.splits)

lemma write_declined:
  assumes "dest w = Some old" and "confirm_reply w = Some False"
  shows "write_cursorrules content False w =
           (Inl (Exit 0), emit (Print Cancelled) (emit Confirm (emit (Print WarnExists) w)))"
  using assms by (simp add: write_cursorrules_def Let_def)

text \<open>
  Whatever \<^verbatim>\<open>install\<close> is asked to do: when the destination exists and \<^verbatim>\<open>--force\<close> is not
  given, nothing is written to it before the prompt.
\<close>

lemma install_asks_first:
  assumes old: "dest w = Some old"
  shows "filter is_dest_write (takeWhile (\<lambda>e. e \<noteq> Confirm)
           (events_since w (snd (install name url False no_cache w)))) = []"
proof (cases "truthy url")
  case True
  then show ?thesis
    using old
    by (auto simp: install_def download_from_url_def write_cursorrules_def events_since_def Let_def
        split: option.splits json.splits)
next
  case url: False
  show ?thesis
  proof (cases "truthy name")
    case False
    with url show ?thesis
      by (simp add: install_def events_since_def)
  next
    case True
    then obtain n where n: "name = Some n"
      by (cases name) (auto simp: truthy_def)
    let ?w1 = "emit RegistryGet w"
    have reg: "get_registry w = (fst (get_registry w), ?w1)"
      by (metis get_registry_snd prod.collapse)
    show ?thesis
    proof (cases "fst (get_registry w)")
      case (Inl e)
      with reg have "get_registry w = (Inl e, ?w1)" by simp
      with url True n show ?thesis
        by (simp add: install_def events_since_def)
    next
      case (Inr all_templates)
      with reg have g: "get_registry w = (Inr all_templates, ?w1)" by simp
      show ?thesis
      proof (cases "dict_get all_templates (JStr n)")
        case None
        with g url True n show ?thesis
          by (simp add: install_def not_found_def events_since_def Let_def)
      next
        case (Some template)
        obtain c w2 where r: "install_content n template no_cache ?w1 = (c, w2)"
          by (cases "install_content n template no_cache ?w1")
        obtain evs where evs: "trace w2 = trace ?w1 @ evs"
          and q: "list_all quiet evs"
          and d: "dest w2 = dest ?w1"
          using install_content_frame [of n template no_cache ?w1] r by auto
        have q': "list_all quiet (RegistryGet # evs)"
          using q by (simp add: quiet_def)
        show ?thesis
        proof (cases c)
          case (Inl e)
          with g Some url True n r have "install name url False no_cache w = (Inl e, w2)"
            by (simp add: install_def)
          with evs quiet_all [OF q'] show ?thesis
            by (simp add: events_since_def)
        next
          case (Inr content)
          obtain rest where rest: "trace (snd (write_cursorrules content False w2))
                  = trace w2 @ Print WarnExists # Confirm # rest"
            using write_asks [of w2 old content] d old by auto
          have "\<exists>rest'. trace (snd (install name url False no_cache w))
                  = trace w2 @ Print WarnExists # Confirm # rest'"
            using g Some url True n r Inr rest
            by (auto simp: install_def split: prod.splits sum.splits)
          then obtain rest' where "events_since w (snd (install name url False no_cache w))
                  = (RegistryGet # evs) @ Print WarnExists # Confirm # rest'"
            using evs by (auto simp: events_since_def)
          with quiet_prefix [OF q'] show ?thesis
            by simp
        qed
      qed
    qed
  qed
qed

text \<open>
  When the user then declines, the destination keeps its text, and an installation that
  got as far as the prompt ends with \<^verbatim>\<open>Exit(0)\<close>.
\<close>

lemma install_declined:
  assumes old: "dest w = Some old" and no: "confirm_reply w = Some False"
  shows "dest (snd (install name url False no_cache w)) = Some old \<and>
         filter is_dest_write (events_since w (snd (install name url False no_cache w))) = [] \<and>
         (Confirm \<in> set (events_since w (snd (install name url False no_cache w))) \<longrightarrow>
            fst (install name url False no_cache w) = Inl (Exit 0))"
proof (cases "truthy url")
  case True
  then show ?thesis
    using old no
    by (auto simp: install_def download_from_url_def write_declined events_since_def Let_def
        split: option.splits)
next
  case url: False
  show ?thesis
  proof (cases "truthy name")
    case False
    with url show ?thesis
      using old by (simp add: install_def events_since_def)
  next
    case True
    then obtain n where n: "name = Some n"
      by (cases name) (auto simp: truthy_def)
    let ?w1 = "emit RegistryGet w"
    have reg: "get_registry w = (fst (get_registry w), ?w1)"
      by (metis get_registry_snd prod.collapse)
    show ?thesis
    proof (cases "fst (get_registry w)")
      case (Inl e)
      with reg have "get_registry w = (Inl e, ?w1)" by simp
      with url True n old show ?thesis
        by (simp add: install_def events_since_def)
    next
      case (Inr all_templates)
      with reg have g: "get_registry w = (Inr all_templates, ?w1)" by simp
      show ?thesis
      proof (cases "dict_get all_templates (JStr n)")
        case None
        with g url True n old show ?thesis
          by (simp add: install_def not_found_def events_since_def Let_def)
      next
        case (Some template)
        obtain c w2 where r: "install_content n template no_cache ?w1 = (c, w2)"
          by (cases "install_content n template no_cache ?w1")
        obtain evs where evs: "trace w2 = trace ?w1 @ evs"
          and q: "list_all quiet evs"
          and d: "dest w2 = dest ?w1"
          and a: "confirm_reply w2 = confirm_reply ?w1"
          using install_content_frame [of n template no_cache ?w1] r by auto
        note qe = quiet_events [OF q]
        show ?thesis
        proof (cases c)
          case (Inl e)
          with g Some url True n r have "install name url False no_cache w = (Inl e, w2)"
            by (simp add: install_def)
          with evs d old qe show ?thesis
            by (simp add: events_since_def)
        next
          case (Inr content)
          have wd: "write_cursorrules content False w2 =
              (Inl (Exit 0), emit (Print Cancelled) (emit Confirm (emit (Print WarnExists) w2)))"
            by (rule write_declined [of _ old]) (use d a old no in simp_all)
          from g Some url True n r Inr wd
          have "install name url False no_cache w =
              (Inl (Exit 0), emit (Print Cancelled) (emit Confirm (emit (Print WarnExists) w2)))"
            by (simp add: install_def)
          with evs d old qe show ?thesis
            by (simp add: events_since_def)
        qed
      qed
    qed
  qed
qed

text \<open>
  C6. A name is installed whose template has a \<^verbatim>\<open>url\<close> and a \<^verbatim>\<open>name\<close>; the download fails and
  the cache has no file for the name. Then \<^verbatim>\<open>install\<close> ends with \<^verbatim>\<open>Exit(1)\<close>, the last thing
  it did was to print the failure, and the destination file is neither written nor changed.
\<close>

theorem failed_fetch_without_cache_exits:
  assumes "name \<noteq> []" and "\<not> truthy url"
    and "fst (get_registry w) = Inr reg"
    and "dict_get reg (JStr name) = Some template"
    and "py_getitem template ''url'' = Inr u"
    and "py_getitem template ''name'' = Inr label"
    and "fst (download_from_url u w) = Inl RequestException"
    and "cache_files w (get_cache_path name) = None"
  shows "fst (install (Some name) url force no_cache w) = Inl (Exit 1) \<and>
         exit_code (fst (install (Some name) url force no_cache w)) = 1 \<and>
         last (trace (snd (install (Some name) url force no_cache w))) = Print FailedTemplate \<and>
         filter is_dest_write (events_since w (snd (install (Some name) url force no_cache w))) = [] \<and>
         dest (snd (install (Some name) url force no_cache w)) = dest w"
  using assms getitem_contains [OF assms(5)]
  by (simp add: install_def truthy_def get_registry_eq install_content_def load_absent
      download_fails events_since_def Let_def)

theorem failed_fetch_without_cache_exits_witness:
  "''react'' \<noteq> [] \<and> \<not> truthy None \<and>
   fst (get_registry content_down)
     = Inr [(JStr ''python'', python_override), (JStr ''go'', go_template),
            (JStr ''react'', react_template)] \<and>
   dict_get [(JStr ''python'', python_override), (JStr ''go'', go_template),
             (JStr ''react'', react_template)] (JStr ''react'') = Some react_template \<and>
   py_getitem react_template ''url'' = Inr (JStr react_url) \<and>
   py_getitem react_template ''name'' = Inr (JStr ''React'') \<and>
   fst (download_from_url (JStr react_url) content_down) = Inl RequestException \<and>
   cache_files content_down (get_cache_path ''react'') = None \<and>
   fst (install (Some ''react'') None False False content_down) = Inl (Exit 1) \<and>
   exit_code (fst (install (Some ''react'') None False False content_down)) = 1 \<and>
   dest (snd (install (Some ''react'') None False False content_down)) = None"
proof -
  let ?reg = "[(JStr ''python'', python_override), (JStr ''go'', go_template),
               (JStr ''react'', react_template)]"
  have h1: "''react'' \<noteq> []" by simp
  have h2: "\<not> truthy None" by (simp add: truthy_def)
  have h3: "fst (get_registry content_down) = Inr ?reg"
    by (simp add: get_registry_def raise_for_status_def obj_get_def dict_update_def dict_set_def
        env_defs bundled_def remote_templates_def registry_doc_def)
  have h4: "dict_get ?reg (JStr ''react'') = Some react_template"
    by (simp add: dict_get_def)
  have h5: "py_getitem react_template ''url'' = Inr (JStr react_url)"
    by (simp add: react_template_def obj_get_def)
  have h6: "py_getitem react_template ''name'' = Inr (JStr ''React'')"
    by (simp add: react_template_def obj_get_def)
  have h7: "fst (download_from_url (JStr react_url) content_down) = Inl RequestException"
    by (simp add: download_from_url_def Let_def env_defs)
  have h8: "cache_files content_down (get_cache_path ''react'') = None"
    by (simp add: env_defs)
  have d: "dest content_down = None"
    by (simp add: env_defs)
  from failed_fetch_without_cache_exits [OF h1 h2 h3 h4 h5 h6 h7 h8, of False False]
    h1 h2 h3 h4 h5 h6 h7 h8 d
  show ?thesis by simp
qed

text \<open>
  C7. The destination file exists and \<^verbatim>\<open>--force\<close> is not given. Then \<^verbatim>\<open>write_cursorrules\<close>
  begins with the warning and the prompt, and no run of \<^verbatim>\<open>install\<close> writes the destination
  before the prompt. When the answer is no, \<^verbatim>\<open>write_cursorrules\<close> raises \<^verbatim>\<open>Exit(0)\<close>, which
  is exit status 0; the file keeps its text and is not written, also over the whole of
  \<^verbatim>\<open>install\<close>, and an \<^verbatim>\<open>install\<close> that got as far as the prompt ends with that \<^verbatim>\<open>Exit(0)\<close>.
\<close>

theorem declined_overwrite_is_success:
  assumes "dest w = Some old"
  shows "take 2 (events_since w (snd (write_cursorrules content False w)))
           = [Print WarnExists, Confirm] \<and>
         filter is_dest_write (takeWhile (\<lambda>e. e \<noteq> Confirm)
           (events_since w (snd (install name url False no_cache w)))) = [] \<and>
         (confirm_reply w = Some False \<longrightarrow>
            fst (write_cursorrules content False w) = Inl (Exit 0) \<and>
            exit_code (fst (write_cursorrules content False w)) = 0 \<and>
            dest (snd (write_cursorrules content False w)) = Some old \<and>
            filter is_dest_write (events_since w (snd (write_cursorrules content False w))) = [] \<and>
            dest (snd (install name url False no_cache w)) = Some old \<and>
            filter is_dest_write (events_since w (snd (install name url False no_cache w))) = [] \<and>
            (Confirm \<in> set (events_since w (snd (install name url False no_cache w))) \<longrightarrow>
               fst (install name url False no_cache w) = Inl (Exit 0) \<and>
               exit_code (fst (install name url False no_cache w)) = 0))"
proof -
  have asked: "take 2 (events_since w (snd (write_cursorrules content False w)))
           = [Print WarnExists, Confirm]"
    using assms
    by (auto simp: write_cursorrules_def events_since_def Let_def split: option.splits json.splits)
  have declined: "fst (write_cursorrules content False w) = Inl (Exit 0) \<and>
            exit_code (fst (write_cursorrules content False w)) = 0 \<and>
            dest (snd (write_cursorrules content False w)) = Some old \<and>
            filter is_dest_write (events_since w (snd (write_cursorrules content False w))) = []"
    if "confirm_reply w = Some False"
    using assms that by (simp add: write_declined events_since_def)
  have whole: "dest (snd (install name url False no_cache w)) = Some old \<and>
         filter is_dest_write (events_since w (snd (install name url False no_cache w))) = [] \<and>
         (Confirm \<in> set (events_since w (snd (install name url False no_cache w))) \<longrightarrow>
            fst (install name url False no_cache w) = Inl (Exit 0) \<and>
            exit_code (fst (install name url False no_cache w)) = 0)"
    if "confirm_reply w = Some False"
    using install_declined [OF assms that, of name url no_cache] by simp
  from asked install_asks_first [OF assms, of name url no_cache] declined whole
  show ?thesis by blast
qed

theorem declined_overwrite_is_success_witness:
  "dest (offline\<lparr>dest := Some ''# old rules''\<rparr>) = Some ''# old rules'' \<and>
   confirm_reply (offline\<lparr>dest := Some ''# old rules''\<rparr>) = Some False \<and>
   Confirm \<in> set (events_since (offline\<lparr>dest := Some ''# old rules''\<rparr>)
     (snd (install (Some ''python'') None False False (offline\<lparr>dest := Some ''# old rules''\<rparr>)))) \<and>
   fst (install (Some ''python'') None False False (offline\<lparr>dest := Some ''# old rules''\<rparr>))
     = Inl (Exit 0) \<and>
   dest (snd (install (Some ''python'') None False False (offline\<lparr>dest := Some ''# old rules''\<rparr>)))
     = Some ''# old rules'' \<and>
   fst (write_cursorrules (JStr ''# Python rules'') False (offline\<lparr>dest := Some ''# old rules''\<rparr>))
     = Inl (Exit 0)"
proof -
  let ?w = "offline\<lparr>dest := Some ''# old rules''\<rparr>"
  have h1: "dest ?w = Some ''# old rules''" by simp
  have h2: "confirm_reply ?w = Some False" by (simp add: offline_def)
  have h3: "Confirm \<in> set (events_since ?w (snd (install (Some ''python'') None False False ?w)))"
    by (simp add: run_defs env_defs template_defs)
  from declined_overwrite_is_success
         [OF h1, of "JStr ''# Python rules''" "Some ''python''" None False] h1 h2 h3
  show ?thesis by simp
qed

text \<open>
  C8. A name is installed whose template has no \<^verbatim>\<open>url\<close> and has a string as \<^verbatim>\<open>content\<close>. The
  resolution returns that string and leaves the environment as it was: nothing is read,
  written or requested. With \<^verbatim>\<open>--force\<close>, or no destination file yet, or a yes at the
  prompt, and a destination that can be written, the destination file holds exactly that
  string afterwards and the cache has not been touched.
\<close>

theorem inline_template_installs_its_content:
  assumes "name \<noteq> []" and "\<not> truthy url"
    and "fst (get_registry w) = Inr reg"
    and "dict_get reg (JStr name) = Some template"
    and "py_contains template ''url'' = Inr False"
    and "py_getitem template ''content'' = Inr (JStr txt)"
    and "force \<or> dest w = None \<or> confirm_reply w = Some True"
    and "dest_writable w"
  shows "install_content name template no_cache w = (Inr (JStr txt), w) \<and>
         dest (snd (install (Some name) url force no_cache w)) = Some txt \<and>
         filter is_cache_access (events_since w (snd (install (Some name) url force no_cache w))) = [] \<and>
         cache_files (snd (install (Some name) url force no_cache w)) = cache_files w"
  using assms
  by (auto simp: install_def truthy_def get_registry_eq install_content_def write_cursorrules_def
      events_since_def Let_def split: sum.splits)

theorem inline_template_installs_its_content_witness:
  "''python'' \<noteq> [] \<and> \<not> truthy None \<and>
   fst (get_registry offline) = Inr bundled \<and>
   dict_get bundled (JStr ''python'') = Some python_template \<and>
   py_contains python_template ''url'' = Inr False \<and>
   py_getitem python_template ''content'' = Inr (JStr ''# Python rules'') \<and>
   dest offline = None \<and> dest_writable offline \<and>
   dest (snd (install (Some ''python'') None False False offline)) = Some ''# Python rules''"
proof -
  have h1: "''python'' \<noteq> []" by simp
  have h2: "\<not> truthy None" by (simp add: truthy_def)
  have h3: "fst (get_registry offline) = Inr bundled"
    by (simp add: get_registry_def env_defs)
  have h4: "dict_get bundled (JStr ''python'') = Some python_template"
    by (simp add: dict_get_def bundled_def)
  have h5: "py_contains python_template ''url'' = Inr False"
    by (simp add: python_template_def obj_get_def)
  have h6: "py_getitem python_template ''content'' = Inr (JStr ''# Python rules'')"
    by (simp add: python_template_def obj_get_def)
  have d: "dest offline = None" by (simp add: env_defs)
  then have h7: "False \<or> dest offline = None \<or> confirm_reply offline = Some True" by simp
  have h8: "dest_writable offline" by (simp add: env_defs)
  from inline_template_installs_its_content [OF h1 h2 h3 h4 h5 h6 h7 h8, of False]
    h1 h2 h3 h4 h5 h6 d h8
  show ?thesis by simp
qed

text \<open>
  C9. An installation from a URL (a URL that is not empty, no name) makes one request, the
  download of that URL, and does not touch the cache. When the download fails, it ends
  with \<^verbatim>\<open>Exit(1)\<close> right after printing the failure, and the destination file is neither
  written nor changed.
\<close>

theorem url_install_fetches_once:
  assumes "u \<noteq> []" and "\<not> truthy name"
  shows "filter is_fetch (events_since w (snd (install name (Some u) force no_cache w)))
           = [Download (JStr u)] \<and>
         filter is_cache_access (events_since w (snd (install name (Some u) force no_cache w))) = [] \<and>
         cache_files (snd (install name (Some u) force no_cache w)) = cache_files w \<and>
         (fst (download_from_url (JStr u) w) = Inl RequestException \<longrightarrow>
            fst (install name (Some u) force no_cache w) = Inl (Exit 1) \<and>
            exit_code (fst (install name (Some u) force no_cache w)) = 1 \<and>
            events_since w (snd (install name (Some u) force no_cache w))
              = [Print Downloading, Download (JStr u), Print FailedDownload] \<and>
            dest (snd (install name (Some u) force no_cache w)) = dest w)"
  using assms
  by (auto simp: install_def truthy_def download_from_url_def write_cursorrules_def
      events_since_def Let_def split: option.splits)

theorem url_install_fetches_once_witness:
  "react_url \<noteq> [] \<and> \<not> truthy None \<and>
   fst (download_from_url (JStr react_url) offline) = Inl RequestException \<and>
   filter is_fetch (events_since offline (snd (install None (Some react_url) False False offline)))
     = [Download (JStr react_url)] \<and>
   fst (install None (Some react_url) False False offline) = Inl (Exit 1) \<and>
   dest (snd (install None (Some react_url) False False offline)) = None"
proof -
  have h1: "react_url \<noteq> []" by (simp add: react_url_def)
  have h2: "\<not> truthy None" by (simp add: truthy_def)
  have h3: "fst (download_from_url (JStr react_url) offline) = Inl RequestException"
    by (simp add: download_from_url_def Let_def env_defs)
  have d: "dest offline = None" by (simp add: env_defs)
  from url_install_fetches_once [OF h1 h2, of offline False False] h1 h2 h3 d
  show ?thesis by simp
qed

text \<open>
  C10, as the code has it. \<^verbatim>\<open>install\<close> tests its two arguments for truth, so that an empty
  string counts as not given. When both the name and the URL are given and not empty, or
  neither is, it ends with \<^verbatim>\<open>Exit(1)\<close> and has requested nothing, touched no cache file
  and not written the destination.
\<close>

theorem both_or_neither_exits:
  assumes "(truthy url \<and> truthy name) \<or> (\<not> truthy url \<and> \<not> truthy name)"
  shows "fst (install name url force no_cache w) = Inl (Exit 1) \<and>
         exit_code (fst (install name url force no_cache w)) = 1 \<and>
         filter is_fetch (events_since w (snd (install name url force no_cache w))) = [] \<and>
         filter is_cache_access (events_since w (snd (install name url force no_cache w))) = [] \<and>
         filter is_dest_write (events_since w (snd (install name url force no_cache w))) = [] \<and>
         cache_files (snd (install name url force no_cache w)) = cache_files w \<and>
         dest (snd (install name url force no_cache w)) = dest w"
  using assms by (auto simp: install_def events_since_def)

theorem both_or_neither_exits_witness:
  "truthy (Some react_url) \<and> truthy (Some ''python'') \<and>
   fst (install (Some ''python'') (Some react_url) False False online) = Inl (Exit 1) \<and>
   filter is_fetch (events_since online
     (snd (install (Some ''python'') (Some react_url) False False online))) = [] \<and>
   \<not> truthy None \<and>
   fst (install None None False False online) = Inl (Exit 1)"
proof -
  have h1: "truthy (Some react_url) \<and> truthy (Some ''python'')"
    by (simp add: truthy_def react_url_def)
  have h2: "\<not> truthy None" by (simp add: truthy_def)
  from both_or_neither_exits [of "Some react_url" "Some ''python''" False False online]
       both_or_neither_exits [of None None False False online] h1 h2
  show ?thesis by simp
qed

text \<open>
  C10 as it is stated fails where the name that is given is the empty string: a name and
  a URL are both given, and the URL is downloaded and installed.
\<close>

theorem empty_name_with_url_installs:
  "fst (install (Some []) (Some react_url) False False online) = Inr () \<and>
   filter is_fetch (events_since online
     (snd (install (Some []) (Some react_url) False False online))) = [Download (JStr react_url)] \<and>
   dest (snd (install (Some []) (Some react_url) False False online)) = Some ''# React rules v1''"
  by (simp add: run_defs env_defs)

end
